theory Spec2Isabelle
  imports Complex_Main "HOL-Library.AList" "HOL-Library.Char_ord"
    "HOL-Library.List_Lexorder" "HOL-Library.Multiset"
begin

section \<open>Decoded JSON values and the Python operations applied to them\<close>

text \<open>
  The plugin works on what \<^verbatim>\<open>json.loads\<close> returns. A Python \<^verbatim>\<open>dict\<close> keeps its
  keys in insertion order and has each key once; it is an association list here, read
  with \<open>map_of\<close>. Numbers are exact: \<open>JInt\<close> is a Python \<^verbatim>\<open>int\<close>, \<open>JFloat\<close> a finite
  \<^verbatim>\<open>float\<close> (the IEEE specials and rounding are outside the model).
\<close>

datatype json =
    JNull
  | JBool bool
  | JInt int
  | JFloat rat
  | JStr string
  | JArr "json list"
  | JObj "(string \<times> json) list"

text \<open>The exceptions the modelled code can meet, by Python class.\<close>

datatype exn =
    RuntimeError string
  | JSONDecodeError string nat nat nat
  | KeyError string
  | AttributeError
  | TypeError
  | ValueError
  | OtherError string

text \<open>Python truthiness (\<^verbatim>\<open>if x\<close>, \<^verbatim>\<open>not x\<close>, \<^verbatim>\<open>x or y\<close>).\<close>

fun truthy :: "json \<Rightarrow> bool" where
  "truthy JNull = False"
| "truthy (JBool b) = b"
| "truthy (JInt n) = (n \<noteq> 0)"
| "truthy (JFloat r) = (r \<noteq> 0)"
| "truthy (JStr s) = (s \<noteq> [])"
| "truthy (JArr xs) = (xs \<noteq> [])"
| "truthy (JObj kvs) = (kvs \<noteq> [])"

definition py_or :: "json \<Rightarrow> json \<Rightarrow> json" where
  "py_or x y = (if truthy x then x else y)"

text \<open>\<^verbatim>\<open>d.get(k, default)\<close> on a dict.\<close>

definition dict_get :: "(string \<times> json) list \<Rightarrow> string \<Rightarrow> json \<Rightarrow> json" where
  "dict_get d k dflt = (case map_of d k of None \<Rightarrow> dflt | Some v \<Rightarrow> v)"

text \<open>\<^verbatim>\<open>x.get(k, default)\<close> on any value: only a dict has the method.\<close>

fun obj_get :: "json \<Rightarrow> string \<Rightarrow> json \<Rightarrow> exn + json" where
  "obj_get (JObj d) k dflt = Inr (dict_get d k dflt)"
| "obj_get _ k dflt = Inl AttributeError"

text \<open>
  \<^verbatim>\<open>float(x)\<close>. Parsing a string is the interpreter's; it is the parameter \<open>sf\<close>,
  \<open>None\<close> where \<^verbatim>\<open>float\<close> raises \<^verbatim>\<open>ValueError\<close>.
\<close>

fun py_float :: "(string \<Rightarrow> rat option) \<Rightarrow> json \<Rightarrow> exn + rat" where
  "py_float sf (JBool b) = Inr (if b then 1 else 0)"
| "py_float sf (JInt n) = Inr (of_int n)"
| "py_float sf (JFloat r) = Inr r"
| "py_float sf (JStr s) = (case sf s of None \<Rightarrow> Inl ValueError | Some r \<Rightarrow> Inr r)"
| "py_float sf JNull = Inl TypeError"
| "py_float sf (JArr xs) = Inl TypeError"
| "py_float sf (JObj kvs) = Inl TypeError"

section \<open>Configuration\<close>

record group_def =
  gid :: string
  glabel :: string
  ids :: "string list"

definition ANTIGRAVITY_GROUPS :: "group_def list" where
  "ANTIGRAVITY_GROUPS =
    [\<lparr>gid = ''claude-gpt'', glabel = ''Claude/GPT'',
      ids = [''claude-sonnet-4-5-thinking'', ''claude-opus-4-5-thinking'',
             ''claude-opus-4-6-thinking'', ''claude-sonnet-4-5'', ''claude-sonnet-4-6'',
             ''gpt-oss-120b-medium'']\<rparr>,
     \<lparr>gid = ''gemini-3-pro'', glabel = ''Gemini 3 Pro'',
      ids = [''gemini-3-pro-high'', ''gemini-3-pro-low'', ''gemini-3.1-pro-high'',
             ''gemini-3.1-pro-low'']\<rparr>,
     \<lparr>gid = ''gemini-3-flash'', glabel = ''Gemini 3 Flash'',
      ids = [''gemini-3-flash'', ''gemini-3.1-flash-image'']\<rparr>,
     \<lparr>gid = ''gemini-2.5-pro'', glabel = ''Gemini 2.5 Pro'',
      ids = [''gemini-2.5-pro'']\<rparr>,
     \<lparr>gid = ''gemini-2-5-flash'', glabel = ''Gemini 2.5 Flash'',
      ids = [''gemini-2.5-flash'', ''gemini-2.5-flash-thinking'']\<rparr>,
     \<lparr>gid = ''gemini-2-5-flash-lite'', glabel = ''Gemini 2.5 Flash Lite'',
      ids = [''gemini-2.5-flash-lite'']\<rparr>]"

section \<open>The Antigravity group aggregator\<close>

record AntigravityModelQuota =
  group_label :: string
  remaining_fraction :: "rat option"
  reset_time :: json
  models :: "string list"

text \<open>
  The reverse lookup built by the two nested loops at the head of
  \<^verbatim>\<open>_build_antigravity_groups\<close>: a later group overwrites an earlier one.
\<close>

definition build_lookup :: "group_def list \<Rightarrow> (string \<rightharpoonup> group_def)" where
  "build_lookup groups =
     fold (\<lambda>group m. fold (\<lambda>mid m'. m'(mid \<mapsto> group)) (ids group) m) groups Map.empty"

definition model_to_group :: "string \<rightharpoonup> group_def" where
  "model_to_group = build_lookup ANTIGRAVITY_GROUPS"

text \<open>
  The two conditional expressions that read an entry: the nested \<^verbatim>\<open>quotaInfo\<close> value
  when it is truthy, the entry's own keys otherwise; the camelCase key first, the
  snake_case key as its default.
\<close>

definition extract_remaining :: "(string \<times> json) list \<Rightarrow> exn + json" where
  "extract_remaining info =
     (let quota_info = dict_get info ''quotaInfo'' (JObj []) in
      if truthy quota_info then
        (case obj_get quota_info ''remaining_fraction'' JNull of
           Inl e \<Rightarrow> Inl e
         | Inr d \<Rightarrow> obj_get quota_info ''remainingFraction'' d)
      else Inr (dict_get info ''remainingFraction'' (dict_get info ''remaining_fraction'' JNull)))"

definition extract_reset_time :: "(string \<times> json) list \<Rightarrow> exn + json" where
  "extract_reset_time info =
     (let quota_info = dict_get info ''quotaInfo'' (JObj []) in
      if truthy quota_info then
        (case obj_get quota_info ''reset_time'' (JStr '''') of
           Inl e \<Rightarrow> Inl e
         | Inr d \<Rightarrow> obj_get quota_info ''resetTime'' d)
      else Inr (dict_get info ''resetTime'' (dict_get info ''reset_time'' (JStr ''''))))"

text \<open>
  The body of \<^verbatim>\<open>if gdef:\<close> after the group's record \<open>g\<close> has been found or created:
  append the member, then lower the fraction when the new one is strictly smaller.
\<close>

definition absorb ::
  "(string \<Rightarrow> rat option) \<Rightarrow> AntigravityModelQuota \<Rightarrow> string \<Rightarrow> json \<Rightarrow> json
     \<Rightarrow> exn + AntigravityModelQuota" where
  "absorb sf g model_id remaining rtime =
     (let g1 = g\<lparr>models := models g @ [model_id]\<rparr> in
      if remaining = JNull then Inr g1
      else case py_float sf remaining of
          Inl e \<Rightarrow> Inl e
        | Inr fraction \<Rightarrow>
            (if (case remaining_fraction g1 of None \<Rightarrow> True | Some cur \<Rightarrow> fraction < cur)
             then Inr (g1\<lparr>remaining_fraction := Some fraction,
                         reset_time := py_or rtime (reset_time g1)\<rparr>)
             else Inr g1))"

definition fresh_group :: "group_def \<Rightarrow> AntigravityModelQuota" where
  "fresh_group gdef =
     \<lparr>group_label = glabel gdef, remaining_fraction = None, reset_time = JStr '''',
      models = []\<rparr>"

text \<open>
  One iteration of \<^verbatim>\<open>for model_id, info in models.items()\<close>. \<open>group_data\<close> is the
  insertion-ordered dict from group id to the group's record.
\<close>

definition step ::
  "(string \<rightharpoonup> group_def) \<Rightarrow> (string \<Rightarrow> rat option)
     \<Rightarrow> (string \<times> AntigravityModelQuota) list \<Rightarrow> string \<times> json
     \<Rightarrow> exn + (string \<times> AntigravityModelQuota) list" where
  "step m2g sf group_data entry =
     (case snd entry of
        JObj info \<Rightarrow>
          (case extract_remaining info of
             Inl e \<Rightarrow> Inl e
           | Inr remaining \<Rightarrow>
               (case extract_reset_time info of
                  Inl e \<Rightarrow> Inl e
                | Inr rtime \<Rightarrow>
                    (case m2g (fst entry) of
                       None \<Rightarrow> Inr group_data
                     | Some gdef \<Rightarrow>
                         (let g = (case map_of group_data (gid gdef) of
                                     None \<Rightarrow> fresh_group gdef
                                   | Some g0 \<Rightarrow> g0)
                          in case absorb sf g (fst entry) remaining rtime of
                               Inl e \<Rightarrow> Inl e
                             | Inr g' \<Rightarrow> Inr (AList.update (gid gdef) g' group_data)))))
      | _ \<Rightarrow> Inr group_data)"

fun build_loop ::
  "(string \<rightharpoonup> group_def) \<Rightarrow> (string \<Rightarrow> rat option)
     \<Rightarrow> (string \<times> AntigravityModelQuota) list \<Rightarrow> (string \<times> json) list
     \<Rightarrow> exn + (string \<times> AntigravityModelQuota) list" where
  "build_loop m2g sf group_data [] = Inr group_data"
| "build_loop m2g sf group_data (entry # rest) =
     (case step m2g sf group_data entry of
        Inl e \<Rightarrow> Inl e
      | Inr group_data' \<Rightarrow> build_loop m2g sf group_data' rest)"

definition build_antigravity_groups ::
  "(string \<Rightarrow> rat option) \<Rightarrow> (string \<times> json) list \<Rightarrow> exn + AntigravityModelQuota list" where
  "build_antigravity_groups sf models_in =
     (case build_loop model_to_group sf [] models_in of
        Inl e \<Rightarrow> Inl e
      | Inr group_data \<Rightarrow> Inr (sort_key group_label (map snd group_data)))"

section \<open>What an entry contributes, and the aggregation of one group\<close>

text \<open>
  The vocabulary of what is proved about the aggregator. An entry contributes to the group
  with id \<open>k\<close> when its value is a record and the reverse lookup maps its key to that
  group.
\<close>

definition in_group :: "(string \<rightharpoonup> group_def) \<Rightarrow> string \<Rightarrow> string \<times> json \<Rightarrow> bool" where
  "in_group m2g k entry =
     (case snd entry of
        JObj info \<Rightarrow> (case m2g (fst entry) of None \<Rightarrow> False | Some gdef \<Rightarrow> gid gdef = k)
      | _ \<Rightarrow> False)"

text \<open>
  The fraction an entry supplies, converted by \<^verbatim>\<open>float\<close>: \<open>None\<close> when it supplies none.
  (On an entry whose reading raises, the aggregator does not return at all; the value
  given here for such an entry is never used.)
\<close>

definition entry_frac :: "(string \<Rightarrow> rat option) \<Rightarrow> string \<times> json \<Rightarrow> rat option" where
  "entry_frac sf entry =
     (case snd entry of
        JObj info \<Rightarrow>
          (case extract_remaining info of
             Inl e \<Rightarrow> None
           | Inr remaining \<Rightarrow>
               (if remaining = JNull then None
                else case py_float sf remaining of Inl e \<Rightarrow> None | Inr f \<Rightarrow> Some f))
      | _ \<Rightarrow> None)"

text \<open>The reset time an entry supplies: the empty string when it supplies none.\<close>

definition entry_rtime :: "string \<times> json \<Rightarrow> json" where
  "entry_rtime entry =
     (case snd entry of
        JObj info \<Rightarrow> (case extract_reset_time info of Inl e \<Rightarrow> JStr '''' | Inr t \<Rightarrow> t)
      | _ \<Rightarrow> JStr '''')"

text \<open>
  The update of a group's record by one contributing entry, once the entry has been
  read without an exception: \<open>absorb\<close> on the values of \<open>entry_frac\<close> and
  \<open>entry_rtime\<close> (lemma \<open>step_Inr\<close>).
\<close>

definition record1 ::
  "(string \<Rightarrow> rat option) \<Rightarrow> AntigravityModelQuota \<Rightarrow> string \<times> json \<Rightarrow> AntigravityModelQuota" where
  "record1 sf g entry =
     (let g1 = g\<lparr>models := models g @ [fst entry]\<rparr> in
      case entry_frac sf entry of
        None \<Rightarrow> g1
      | Some f \<Rightarrow>
          (if (case remaining_fraction g1 of None \<Rightarrow> True | Some cur \<Rightarrow> f < cur)
           then g1\<lparr>remaining_fraction := Some f,
                   reset_time := py_or (entry_rtime entry) (reset_time g1)\<rparr>
           else g1))"

lemma step_Inr:
  assumes "step m2g sf gd entry = Inr gd'"
  shows "gd' = (case snd entry of
            JObj info \<Rightarrow>
              (case m2g (fst entry) of
                 None \<Rightarrow> gd
               | Some gdef \<Rightarrow>
                   AList.update (gid gdef)
                     (record1 sf (case map_of gd (gid gdef) of None \<Rightarrow> fresh_group gdef
                                  | Some g0 \<Rightarrow> g0) entry) gd)
          | _ \<Rightarrow> gd)"
  using assms
  by (auto simp: step_def record1_def absorb_def entry_frac_def entry_rtime_def Let_def
      split: json.splits sum.splits option.splits if_splits)

lemma build_loop_append:
  "build_loop m2g sf gd (xs @ ys) =
     (case build_loop m2g sf gd xs of Inl e \<Rightarrow> Inl e | Inr gd' \<Rightarrow> build_loop m2g sf gd' ys)"
  by (induction xs arbitrary: gd) (auto split: sum.splits)




text \<open>
  A group's record after its contributing entries, in order, and the record the loop
  holds for the group with id \<open>k\<close> after the entries \<open>xs\<close> (lemma
  \<open>build_loop_project\<close>).
\<close>

fun run ::
  "(string \<Rightarrow> rat option) \<Rightarrow> AntigravityModelQuota \<Rightarrow> (string \<times> json) list
     \<Rightarrow> AntigravityModelQuota" where
  "run sf g [] = g"
| "run sf g (entry # rest) = run sf (record1 sf g entry) rest"

lemma run_append: "run sf g (xs @ ys) = run sf (run sf g xs) ys"
  by (induction xs arbitrary: g) auto

definition group_of ::
  "(string \<rightharpoonup> group_def) \<Rightarrow> (string \<Rightarrow> rat option) \<Rightarrow> string \<Rightarrow> (string \<times> json) list
     \<Rightarrow> AntigravityModelQuota option" where
  "group_of m2g sf k xs =
     (case filter (in_group m2g k) xs of
        [] \<Rightarrow> None
      | entry # rest \<Rightarrow>
          (case m2g (fst entry) of
             None \<Rightarrow> None
           | Some gdef \<Rightarrow> Some (run sf (fresh_group gdef) (entry # rest))))"

lemma in_group_lookup:
  "in_group m2g k entry \<Longrightarrow> \<exists>info gdef. snd entry = JObj info \<and> m2g (fst entry) = Some gdef \<and> gid gdef = k"
  by (auto simp: in_group_def split: json.splits option.splits)

lemma filter_head: "filter P xs = y # ys \<Longrightarrow> P y"
  by (metis filter_eq_ConsD)

lemma group_of_snoc:
  "group_of m2g sf k (xs @ [x]) =
     (if in_group m2g k x then
        (case m2g (fst x) of
           None \<Rightarrow> None
         | Some gdef \<Rightarrow>
             Some (record1 sf (case group_of m2g sf k xs of None \<Rightarrow> fresh_group gdef
                               | Some g \<Rightarrow> g) x))
      else group_of m2g sf k xs)"
proof (cases "filter (in_group m2g k) xs")
  case Nil
  then show ?thesis by (auto simp: group_of_def split: option.splits)
next
  case (Cons e rest)
  then have "in_group m2g k e" by (rule filter_head)
  then obtain gdef where "m2g (fst e) = Some gdef"
    using in_group_lookup by blast
  with Cons show ?thesis
    by (auto simp: group_of_def run_append split: option.splits dest: in_group_lookup)
qed

lemma build_loop_project:
  assumes "build_loop m2g sf [] xs = Inr gd"
  shows "map_of gd k = group_of m2g sf k xs"
  using assms
proof (induction xs arbitrary: gd k rule: rev_induct)
  case Nil
  then show ?case by (simp add: group_of_def)
next
  case (snoc x xs)
  from snoc.prems obtain gd0 where a: "build_loop m2g sf [] xs = Inr gd0"
    and b: "step m2g sf gd0 x = Inr gd"
    by (auto simp: build_loop_append split: sum.splits)
  have ih: "\<And>k'. map_of gd0 k' = group_of m2g sf k' xs"
    using snoc.IH [OF a] .
  show ?case
  proof (cases "in_group m2g k x")
    case True
    then obtain info gdef where x: "snd x = JObj info" "m2g (fst x) = Some gdef" "gid gdef = k"
      using in_group_lookup by blast
    with step_Inr [OF b] have "gd = AList.update k
        (record1 sf (case map_of gd0 k of None \<Rightarrow> fresh_group gdef | Some g0 \<Rightarrow> g0) x) gd0"
      by simp
    then show ?thesis
      using True x by (simp add: group_of_snoc ih update_conv')
  next
    case False
    have "map_of gd k = map_of gd0 k"
      using step_Inr [OF b] False
      by (auto simp: in_group_def update_conv' split: json.splits option.splits)
    then show ?thesis using False by (simp add: group_of_snoc ih)
  qed
qed

lemma build_loop_distinct:
  "build_loop m2g sf gd xs = Inr gd' \<Longrightarrow> distinct (map fst gd) \<Longrightarrow> distinct (map fst gd')"
proof (induction xs arbitrary: gd)
  case Nil
  then show ?case by simp
next
  case (Cons x xs)
  from Cons.prems obtain gd1 where a: "step m2g sf gd x = Inr gd1"
    and b: "build_loop m2g sf gd1 xs = Inr gd'"
    by (auto split: sum.splits)
  have "distinct (map fst gd1)"
    using step_Inr [OF a] Cons.prems(2)
    by (auto simp: distinct_update split: json.splits option.splits)
  with Cons.IH [OF b] show ?case .
qed

lemma record1_label: "group_label (record1 sf g x) = group_label g"
  by (simp add: record1_def Let_def split: option.splits)

lemma run_label: "group_label (run sf g xs) = group_label g"
  by (induction xs arbitrary: g) (auto simp: record1_label)

lemma record1_models: "models (record1 sf g x) = models g @ [fst x]"
  by (simp add: record1_def Let_def split: option.splits)

lemma run_models: "models (run sf g xs) = models g @ map fst xs"
  by (induction xs arbitrary: g) (auto simp: record1_models)












section \<open>The configured groups and the aggregator's result\<close>

lemma inner_fold_lookup:
  "fold (\<lambda>mid m'. m'(mid \<mapsto> gdef)) is m x = (if x \<in> set is then Some gdef else m x)"
  by (induction "is" arbitrary: m) auto

lemma outer_fold_lookup:
  "fold (\<lambda>group m. fold (\<lambda>mid m'. m'(mid \<mapsto> group)) (ids group) m) groups m mid = Some gdef
     \<Longrightarrow> (gdef \<in> set groups \<and> mid \<in> set (ids gdef)) \<or> m mid = Some gdef"
proof (induction groups arbitrary: m)
  case Nil
  then show ?case by simp
next
  case (Cons g gs)
  from Cons.prems have "fold (\<lambda>group m. fold (\<lambda>mid m'. m'(mid \<mapsto> group)) (ids group) m) gs
      (fold (\<lambda>mid m'. m'(mid \<mapsto> g)) (ids g) m) mid = Some gdef"
    by (simp only: fold_simps)
  from Cons.IH [OF this] show ?case
    by (auto simp: inner_fold_lookup split: if_splits)
qed

lemma build_lookup_Some:
  "build_lookup groups mid = Some gdef \<Longrightarrow> gdef \<in> set groups \<and> mid \<in> set (ids gdef)"
  using outer_fold_lookup [of groups Map.empty mid gdef] by (simp add: build_lookup_def)

lemma model_to_group_Some:
  "model_to_group mid = Some gdef \<Longrightarrow> gdef \<in> set ANTIGRAVITY_GROUPS \<and> mid \<in> set (ids gdef)"
  unfolding model_to_group_def by (rule build_lookup_Some)

lemma distinct_gids: "distinct (map gid ANTIGRAVITY_GROUPS)"
  by (simp add: ANTIGRAVITY_GROUPS_def)


lemma gid_inj:
  "gdef \<in> set ANTIGRAVITY_GROUPS \<Longrightarrow> gdef' \<in> set ANTIGRAVITY_GROUPS \<Longrightarrow> gid gdef = gid gdef'
     \<Longrightarrow> gdef = gdef'"
  using distinct_gids by (meson distinct_map inj_onD)


lemma build_result:
  assumes "build_antigravity_groups sf ms = Inr gs"
  shows "\<exists>gd. build_loop model_to_group sf [] ms = Inr gd \<and> distinct (map fst gd)
           \<and> gs = sort_key group_label (map snd gd)
           \<and> (\<forall>k. map_of gd k = group_of model_to_group sf k ms)"
proof -
  from assms obtain gd where gd: "build_loop model_to_group sf [] ms = Inr gd"
    and gs: "gs = sort_key group_label (map snd gd)"
    by (auto simp: build_antigravity_groups_def split: sum.splits)
  have "distinct (map fst gd)" using build_loop_distinct [OF gd] by simp
  with gd gs build_loop_project [OF gd] show ?thesis by blast
qed

lemma build_member:
  assumes "build_antigravity_groups sf ms = Inr gs" and "g \<in> set gs"
  shows "\<exists>k. group_of model_to_group sf k ms = Some g"
proof -
  from build_result [OF assms(1)] obtain gd where d: "distinct (map fst gd)"
    and gs: "gs = sort_key group_label (map snd gd)"
    and p: "\<forall>k. map_of gd k = group_of model_to_group sf k ms" by blast
  from assms(2) gs obtain k where "(k, g) \<in> set gd" by auto
  with d have "map_of gd k = Some g" by simp
  with p show ?thesis by metis
qed

text \<open>What \<open>group_of\<close> returns, spelled out.\<close>

lemma group_of_Some:
  assumes "group_of model_to_group sf k ms = Some g"
  shows "\<exists>e rest gdef. filter (in_group model_to_group k) ms = e # rest
           \<and> model_to_group (fst e) = Some gdef \<and> gid gdef = k
           \<and> gdef \<in> set ANTIGRAVITY_GROUPS
           \<and> g = run sf (fresh_group gdef) (e # rest)"
proof -
  from assms obtain e rest gdef where f: "filter (in_group model_to_group k) ms = e # rest"
    and m: "model_to_group (fst e) = Some gdef"
    and g: "g = run sf (fresh_group gdef) (e # rest)"
    by (auto simp: group_of_def split: list.splits option.splits)
  from f have "in_group model_to_group k e" by (rule filter_head)
  with m have "gid gdef = k" by (auto dest: in_group_lookup)
  with f m g model_to_group_Some [OF m] show ?thesis by blast
qed

text \<open>Two runs of the aggregator, evaluated.\<close>

lemma build_example_single:
  "build_antigravity_groups (\<lambda>s. None)
     [(''gemini-2.5-pro'', JObj [(''quotaInfo'',
         JObj [(''remainingFraction'', JFloat (2 / 5)), (''resetTime'', JStr ''T'')])]),
      (''other'', JInt 3)]
   = Inr [\<lparr>group_label = ''Gemini 2.5 Pro'', remaining_fraction = Some (2 / 5),
            reset_time = JStr ''T'', models = [''gemini-2.5-pro'']\<rparr>]"
  by (simp add: build_antigravity_groups_def step_def model_to_group_def build_lookup_def
      ANTIGRAVITY_GROUPS_def extract_remaining_def extract_reset_time_def dict_get_def
      absorb_def fresh_group_def py_or_def)


subsection \<open>Every returned group is a configured, non-empty group\<close>

text \<open>
  C10. Whenever the aggregator returns, every group in its result has at least one
  member, carries the label of a group of \<open>ANTIGRAVITY_GROUPS\<close>, and lists only
  model ids that are keys of the input whose value is a record and that belong to that
  group's configured ids.
\<close>

theorem groups_well_formed:
  assumes "build_antigravity_groups sf ms = Inr gs" and "g \<in> set gs"
  shows "models g \<noteq> [] \<and>
    (\<exists>gdef \<in> set ANTIGRAVITY_GROUPS. group_label g = glabel gdef \<and>
       (\<forall>m \<in> set (models g). m \<in> set (ids gdef) \<and> (\<exists>info. (m, JObj info) \<in> set ms)))"
proof -
  from build_member [OF assms] obtain k where "group_of model_to_group sf k ms = Some g" ..
  from group_of_Some [OF this] obtain e rest gdef where
    f: "filter (in_group model_to_group k) ms = e # rest"
    and k: "gid gdef = k" and cfg: "gdef \<in> set ANTIGRAVITY_GROUPS"
    and g: "g = run sf (fresh_group gdef) (e # rest)" by blast
  have mods: "models g = map fst (e # rest)"
    unfolding g by (simp add: run_models fresh_group_def del: run.simps)
  have lab: "group_label g = glabel gdef"
    unfolding g by (simp add: run_label fresh_group_def del: run.simps)
  have "m \<in> set (ids gdef) \<and> (\<exists>info. (m, JObj info) \<in> set ms)" if "m \<in> set (models g)" for m
  proof -
    from that have "m \<in> set (map fst (e # rest))" by (simp only: mods)
    then obtain x where x: "x \<in> set (e # rest)" "fst x = m"
      unfolding set_map by blast
    then have "x \<in> set (filter (in_group model_to_group k) ms)" by (simp only: f)
    then have xin: "x \<in> set ms" and "in_group model_to_group k x" by simp_all
    then obtain info gdef' where i: "snd x = JObj info"
      and m: "model_to_group (fst x) = Some gdef'" and k': "gid gdef' = k"
      using in_group_lookup by blast
    from model_to_group_Some [OF m] have "gdef' \<in> set ANTIGRAVITY_GROUPS" "fst x \<in> set (ids gdef')"
      by auto
    with gid_inj [OF cfg, of gdef'] k k' have "fst x \<in> set (ids gdef)" by simp
    moreover have "(m, JObj info) \<in> set ms" using xin x(2) i by (metis prod.collapse)
    ultimately show ?thesis using x(2) by blast
  qed
  with mods lab cfg show ?thesis by auto
qed

theorem groups_well_formed_witness:
  "models \<lparr>group_label = ''Gemini 2.5 Pro'', remaining_fraction = Some (2 / 5),
            reset_time = JStr ''T'', models = [''gemini-2.5-pro'']\<rparr> \<noteq> [] \<and>
    (\<exists>gdef \<in> set ANTIGRAVITY_GROUPS.
       group_label \<lparr>group_label = ''Gemini 2.5 Pro'', remaining_fraction = Some (2 / 5),
            reset_time = JStr ''T'', models = [''gemini-2.5-pro'']\<rparr> = glabel gdef \<and>
       (\<forall>m \<in> set (models \<lparr>group_label = ''Gemini 2.5 Pro'',
            remaining_fraction = Some (2 / 5), reset_time = JStr ''T'',
            models = [''gemini-2.5-pro'']\<rparr>).
          m \<in> set (ids gdef) \<and>
          (\<exists>info. (m, JObj info) \<in> set
            [(''gemini-2.5-pro'', JObj [(''quotaInfo'',
                JObj [(''remainingFraction'', JFloat (2 / 5)), (''resetTime'', JStr ''T'')])]),
             (''other'', JInt 3)])))"
  by (rule groups_well_formed [OF build_example_single]) simp

subsection \<open>Which keys an entry is read from\<close>

text \<open>
  The reading order in words: the first of the listed keys that the mapping has gives the
  value (a key present with the value \<^verbatim>\<open>null\<close> counts as present); the default is used
  when the mapping has none of them.
\<close>

fun first_present :: "(string \<times> json) list \<Rightarrow> string list \<Rightarrow> json \<Rightarrow> json" where
  "first_present d [] dflt = dflt"
| "first_present d (k # ks) dflt =
     (case map_of d k of None \<Rightarrow> first_present d ks dflt | Some v \<Rightarrow> v)"

lemma obj_get_first:
  "(case obj_get qi k2 dflt of Inl e \<Rightarrow> Inl e | Inr d \<Rightarrow> obj_get qi k1 d) =
     (case qi of JObj q \<Rightarrow> Inr (first_present q [k1, k2] dflt) | _ \<Rightarrow> Inl AttributeError)"
  by (cases qi) (simp_all add: dict_get_def split: option.splits)

lemma dict_get_first:
  "dict_get d k1 (dict_get d k2 dflt) = first_present d [k1, k2] dflt"
  by (simp add: dict_get_def split: option.splits)

text \<open>
  C4 (as amended). Both fields of an entry are read from the nested \<^verbatim>\<open>quotaInfo\<close> value
  alone when that value is truthy, and from the entry's own top-level keys alone
  otherwise. In the mapping that is read the camelCase key wins when present, the
  snake_case key is used when the camelCase key is absent, and the default (no value for
  the remaining fraction, the empty string for the reset time) when both are absent. A
  truthy \<^verbatim>\<open>quotaInfo\<close> that is not a mapping raises \<^verbatim>\<open>AttributeError\<close>. There is no
  fall-through from a non-empty \<^verbatim>\<open>quotaInfo\<close> to the top-level keys.
\<close>

theorem extraction_order:
  "extract_remaining info =
     (let quota_info = dict_get info ''quotaInfo'' (JObj []) in
      if truthy quota_info then
        (case quota_info of
           JObj q \<Rightarrow> Inr (first_present q [''remainingFraction'', ''remaining_fraction''] JNull)
         | _ \<Rightarrow> Inl AttributeError)
      else Inr (first_present info [''remainingFraction'', ''remaining_fraction''] JNull))
   \<and> extract_reset_time info =
     (let quota_info = dict_get info ''quotaInfo'' (JObj []) in
      if truthy quota_info then
        (case quota_info of
           JObj q \<Rightarrow> Inr (first_present q [''resetTime'', ''reset_time''] (JStr ''''))
         | _ \<Rightarrow> Inl AttributeError)
      else Inr (first_present info [''resetTime'', ''reset_time''] (JStr '''')))"
  unfolding extract_remaining_def extract_reset_time_def Let_def
  by (simp only: obj_get_first dict_get_first)

text \<open>
  The claim as first stated fails: an entry whose non-empty \<^verbatim>\<open>quotaInfo\<close> has neither
  remaining-fraction key and whose top-level \<^verbatim>\<open>remainingFraction\<close> is \<open>1/2\<close> yields no
  remaining fraction, and its group is returned without one.
\<close>

theorem extraction_top_level_counterexample:
  "extract_remaining
     [(''quotaInfo'', JObj [(''resetTime'', JStr ''T'')]), (''remainingFraction'', JFloat (1 / 2))]
     = Inr JNull
   \<and> build_antigravity_groups (\<lambda>s. None)
     [(''gemini-2.5-pro'',
       JObj [(''quotaInfo'', JObj [(''resetTime'', JStr ''T'')]),
             (''remainingFraction'', JFloat (1 / 2))])]
     = Inr [\<lparr>group_label = ''Gemini 2.5 Pro'', remaining_fraction = None,
              reset_time = JStr '''', models = [''gemini-2.5-pro'']\<rparr>]"
  by (simp add: build_antigravity_groups_def step_def model_to_group_def build_lookup_def
      ANTIGRAVITY_GROUPS_def extract_remaining_def extract_reset_time_def dict_get_def
      absorb_def fresh_group_def py_or_def)

subsection \<open>The group's fraction is the minimum; where its reset time comes from\<close>







subsection \<open>Reordering the entries\<close>

text \<open>
  What of a group does not depend on the order of the entries: its label, its fraction
  and its members as a multiset.
\<close>


















section \<open>The Management API client\<close>

text \<open>
  \<^verbatim>\<open>str(n)\<close> for an integer, and \<^verbatim>\<open>str(exc)\<close> for the exception classes the fetchers
  catch (the message of a \<^verbatim>\<open>JSONDecodeError\<close> is built by the \<^verbatim>\<open>json\<close> module from the
  reason and the position). For the classes that no handler of the program catches the
  text is never used; the class name stands for it.
\<close>

function str_nat :: "nat \<Rightarrow> string" where
  "str_nat n =
     (if n < 10 then [char_of (48 + n)] else str_nat (n div 10) @ [char_of (48 + n mod 10)])"
  by pat_completeness auto
termination
  by (relation "measure id") auto

definition str_int :: "int \<Rightarrow> string" where
  "str_int i = (if i < 0 then ''-'' @ str_nat (nat (- i)) else str_nat (nat i))"

fun exn_str :: "exn \<Rightarrow> string" where
  "exn_str (RuntimeError m) = m"
| "exn_str (JSONDecodeError m l c p) =
     m @ '': line '' @ str_nat l @ '' column '' @ str_nat c @ '' (char '' @ str_nat p @ '')''"
| "exn_str (KeyError k) = [CHR 0x27] @ k @ [CHR 0x27]"
| "exn_str AttributeError = ''AttributeError''"
| "exn_str TypeError = ''TypeError''"
| "exn_str ValueError = ''ValueError''"
| "exn_str (OtherError m) = m"

text \<open>
  What is outside the program: the configured API root, the HTTP exchange
  (\<^verbatim>\<open>urlopen\<close>, reading and decoding the reply), \<^verbatim>\<open>json.loads\<close> and \<^verbatim>\<open>json.dumps\<close>,
  \<^verbatim>\<open>float\<close> on a string and \<^verbatim>\<open>str\<close> on a float. The fixed request headers and the
  timeout are the same on every request and are left out.
\<close>

record request =
  req_url :: string
  req_method :: string
  req_data :: "json option"

datatype transport =
    Body string
  | HTTPError int string
  | URLError string
  | Failure string

record env =
  management_api :: string
  urlopen :: "request \<Rightarrow> transport"
  json_loads :: "string \<Rightarrow> (string \<times> nat \<times> nat \<times> nat) + json"
  json_dumps :: "json \<Rightarrow> string"
  float_of_str :: "string \<Rightarrow> rat option"
  float_repr :: "rat \<Rightarrow> string"

definition loads :: "env \<Rightarrow> string \<Rightarrow> exn + json" where
  "loads env s =
     (case json_loads env s of
        Inl (m, l, c, p) \<Rightarrow> Inl (JSONDecodeError m l c p)
      | Inr v \<Rightarrow> Inr v)"

text \<open>
  \<^verbatim>\<open>_make_request\<close>: the result, and the requests sent. An \<^verbatim>\<open>HTTPError\<close> and a
  \<^verbatim>\<open>URLError\<close> are re-raised as \<^verbatim>\<open>RuntimeError\<close>; anything else the exchange raises
  (\<open>Failure\<close>) propagates as it is.
\<close>

definition make_request ::
  "env \<Rightarrow> string \<Rightarrow> string \<Rightarrow> json option \<Rightarrow> (exn + json) \<times> request list" where
  "make_request env url method data =
     (let req = \<lparr>req_url = url, req_method = method,
                  req_data = (case data of None \<Rightarrow> None
                              | Some d \<Rightarrow> if truthy d then Some d else None)\<rparr>
      in (case urlopen env req of
            Body s \<Rightarrow> loads env s
          | HTTPError code error_body \<Rightarrow>
              Inl (RuntimeError (''HTTP '' @ str_int code @ '': '' @ error_body))
          | URLError reason \<Rightarrow> Inl (RuntimeError (''Connection error: '' @ reason))
          | Failure m \<Rightarrow> Inl (OtherError m),
          [req]))"

definition api_call :: "env \<Rightarrow> json \<Rightarrow> (exn + json) \<times> request list" where
  "api_call env payload = make_request env (management_api env @ ''/api-call'') ''POST'' (Some payload)"

text \<open>
  Reading the proxied reply. \<open>as_number\<close> is the value a status is compared by
  (\<open>None\<close> where \<^verbatim>\<open><\<close> raises \<^verbatim>\<open>TypeError\<close>); \<open>number_str\<close> is its rendering in an
  f-string, needed only for what \<open>as_number\<close> accepts.
\<close>

fun as_number :: "json \<Rightarrow> rat option" where
  "as_number (JInt n) = Some (of_int n)"
| "as_number (JFloat r) = Some r"
| "as_number (JBool b) = Some (if b then 1 else 0)"
| "as_number _ = None"

fun number_str :: "env \<Rightarrow> json \<Rightarrow> string" where
  "number_str env (JInt n) = str_int n"
| "number_str env (JBool b) = (if b then ''True'' else ''False'')"
| "number_str env (JFloat r) = float_repr env r"
| "number_str env _ = []"

definition decode_body :: "env \<Rightarrow> json \<Rightarrow> exn + json" where
  "decode_body env body_str = (case body_str of JStr s \<Rightarrow> loads env s | v \<Rightarrow> Inr v)"

section \<open>Credential records\<close>

text \<open>
  The dataclasses do not check their field types: a field holds whatever the directory
  response held, so the fields are JSON values (\<^verbatim>\<open>None\<close> is \<open>JNull\<close>).
\<close>

record AuthFile =
  name :: json
  provider :: json
  auth_index :: json
  email :: json
  status :: json
  status_message :: json
  disabled :: json
  unavailable :: json
  label :: json
  account_type :: json
  chatgpt_account_id :: json
  plan_type :: json
  project_id :: json

section \<open>The Codex fetcher\<close>

text \<open>The fields of \<^verbatim>\<open>CodexQuota\<close>, prefixed to keep them apart from those of \<open>AuthFile\<close>.\<close>

record CodexQuota =
  cq_email :: json
  cq_plan_type :: json
  cq_primary_used_pct :: json
  cq_primary_reset_seconds :: json
  cq_secondary_used_pct :: json
  cq_secondary_reset_seconds :: json
  cq_limit_reached :: json
  cq_error :: string

definition CODEX_USAGE_URL :: string where
  "CODEX_USAGE_URL = ''https://chatgpt.com/backend-api/wham/usage''"

definition CODEX_REQUEST_HEADERS :: "(string \<times> json) list" where
  "CODEX_REQUEST_HEADERS =
     [(''Authorization'', JStr ''Bearer $TOKEN$''),
      (''Content-Type'', JStr ''application/json''),
      (''User-Agent'', JStr ''codex_cli_rs/0.76.0 (Debian 13.0.0; x86_64) WindowsTerminal'')]"

definition codex_payload :: "AuthFile \<Rightarrow> json" where
  "codex_payload af =
     JObj [(''authIndex'', auth_index af),
           (''method'', JStr ''GET''),
           (''url'', JStr CODEX_USAGE_URL),
           (''header'', JObj (AList.update ''Chatgpt-Account-Id'' (chatgpt_account_id af)
                                CODEX_REQUEST_HEADERS))]"

definition new_codex_quota :: "AuthFile \<Rightarrow> CodexQuota" where
  "new_codex_quota af =
     \<lparr>cq_email = email af, cq_plan_type = plan_type af,
      cq_primary_used_pct = JNull, cq_primary_reset_seconds = JNull,
      cq_secondary_used_pct = JNull, cq_secondary_reset_seconds = JNull,
      cq_limit_reached = JBool False, cq_error = ''''\<rparr>"

text \<open>
  One usage window: nothing when the value is falsy, else its two fields
  (\<^verbatim>\<open>AttributeError\<close> when it is truthy and not a mapping).
\<close>

definition codex_window :: "json \<Rightarrow> exn + (json \<times> json) option" where
  "codex_window w =
     (if truthy w then
        (case obj_get w ''used_percent'' JNull of
           Inl e \<Rightarrow> Inl e
         | Inr used \<Rightarrow>
             (case obj_get w ''reset_after_seconds'' JNull of
                Inl e \<Rightarrow> Inl e
              | Inr secs \<Rightarrow> Inr (Some (used, secs))))
      else Inr None)"

text \<open>
  The statements of the \<^verbatim>\<open>try\<close> block from \<^verbatim>\<open>body.get("plan_type", ...)\<close> on. The
  result is the exception raised, if any, and the quota object as it is then.
\<close>

definition codex_parse :: "AuthFile \<Rightarrow> CodexQuota \<Rightarrow> json \<Rightarrow> exn option \<times> CodexQuota" where
  "codex_parse af quota body =
     (case obj_get body ''plan_type'' (plan_type af) of
        Inl e \<Rightarrow> (Some e, quota)
      | Inr pt \<Rightarrow>
          (let q1 = quota\<lparr>cq_plan_type := pt\<rparr> in
           case obj_get body ''rate_limit'' (JObj []) of
             Inl e \<Rightarrow> (Some e, q1)
           | Inr rate_limit \<Rightarrow>
               (case obj_get rate_limit ''limit_reached'' (JBool False) of
                  Inl e \<Rightarrow> (Some e, q1)
                | Inr reached \<Rightarrow>
                    (let q2 = q1\<lparr>cq_limit_reached := reached\<rparr> in
                     case obj_get rate_limit ''primary_window'' (JObj []) of
                       Inl e \<Rightarrow> (Some e, q2)
                     | Inr primary \<Rightarrow>
                         (case codex_window primary of
                            Inl e \<Rightarrow> (Some e, q2)
                          | Inr pw \<Rightarrow>
                              (let q3 = (case pw of
                                           None \<Rightarrow> q2
                                         | Some (used, secs) \<Rightarrow>
                                             q2\<lparr>cq_primary_used_pct := used,
                                                 cq_primary_reset_seconds := secs\<rparr>)
                               in case obj_get rate_limit ''secondary_window'' (JObj []) of
                                    Inl e \<Rightarrow> (Some e, q3)
                                  | Inr secondary \<Rightarrow>
                                      (case codex_window secondary of
                                         Inl e \<Rightarrow> (Some e, q3)
                                       | Inr sw \<Rightarrow>
                                           (None,
                                            (case sw of
                                               None \<Rightarrow> q3
                                             | Some (used, secs) \<Rightarrow>
                                                 q3\<lparr>cq_secondary_used_pct := used,
                                                     cq_secondary_reset_seconds := secs\<rparr>)))))))))"

text \<open>The \<^verbatim>\<open>try\<close> block, given what \<^verbatim>\<open>api_call\<close> returned or raised.\<close>

definition codex_try ::
  "env \<Rightarrow> AuthFile \<Rightarrow> CodexQuota \<Rightarrow> exn + json \<Rightarrow> exn option \<times> CodexQuota" where
  "codex_try env af quota r =
     (case r of
        Inl e \<Rightarrow> (Some e, quota)
      | Inr result \<Rightarrow>
          (case obj_get result ''status_code'' (JInt 0) of
             Inl e \<Rightarrow> (Some e, quota)
           | Inr status_code \<Rightarrow>
               (case as_number status_code of
                  None \<Rightarrow> (Some TypeError, quota)
                | Some n \<Rightarrow>
                    if n < 200 \<or> n \<ge> 300
                    then (None, quota\<lparr>cq_error := ''HTTP '' @ number_str env status_code\<rparr>)
                    else
                      (case obj_get result ''body'' (JStr '''') of
                         Inl e \<Rightarrow> (Some e, quota)
                       | Inr body_str \<Rightarrow>
                           if \<not> truthy body_str
                           then (None, quota\<lparr>cq_error := ''empty response''\<rparr>)
                           else
                             (case decode_body env body_str of
                                Inl e \<Rightarrow> (Some e, quota)
                              | Inr body \<Rightarrow> codex_parse af quota body)))))"

text \<open>\<^verbatim>\<open>except (RuntimeError, json.JSONDecodeError, KeyError)\<close>.\<close>

fun codex_caught :: "exn \<Rightarrow> bool" where
  "codex_caught (RuntimeError m) = True"
| "codex_caught (JSONDecodeError m l c p) = True"
| "codex_caught (KeyError k) = True"
| "codex_caught _ = False"

definition fetch_codex_quota :: "env \<Rightarrow> AuthFile \<Rightarrow> (exn + CodexQuota) \<times> request list" where
  "fetch_codex_quota env af =
     (let quota = new_codex_quota af in
      if \<not> truthy (auth_index af) then (Inr (quota\<lparr>cq_error := ''missing auth_index''\<rparr>), [])
      else if \<not> truthy (chatgpt_account_id af)
      then (Inr (quota\<lparr>cq_error := ''missing chatgpt_account_id''\<rparr>), [])
      else
        (let (r, sent) = api_call env (codex_payload af) in
         (case codex_try env af quota r of
            (None, q) \<Rightarrow> Inr q
          | (Some e, q) \<Rightarrow> if codex_caught e then Inr (q\<lparr>cq_error := exn_str e\<rparr>) else Inl e,
          sent)))"

subsection \<open>When the Codex fetcher returns\<close>

text \<open>\<^verbatim>\<open>isinstance(v, dict)\<close>.\<close>

definition is_obj :: "json \<Rightarrow> bool" where
  "is_obj v = (case v of JObj kvs \<Rightarrow> True | _ \<Rightarrow> False)"


lemma obj_get_Inr: "obj_get v k d = Inr x \<longleftrightarrow> (\<exists>kvs. v = JObj kvs \<and> x = dict_get kvs k d)"
  by (cases v) auto














text \<open>
  C6. With an empty (falsy) proxy-routing index \<^verbatim>\<open>fetch_codex_quota\<close> sends no request
  and returns the error \<^verbatim>\<open>"missing auth_index"\<close>; with a non-empty index and an empty
  account id it sends no request and returns the error
  \<^verbatim>\<open>"missing chatgpt_account_id"\<close>.
\<close>

theorem codex_preconditions:
  "(\<not> truthy (auth_index af) \<longrightarrow>
      fetch_codex_quota env af
        = (Inr ((new_codex_quota af)\<lparr>cq_error := ''missing auth_index''\<rparr>), []))
   \<and> (truthy (auth_index af) \<and> \<not> truthy (chatgpt_account_id af) \<longrightarrow>
      fetch_codex_quota env af
        = (Inr ((new_codex_quota af)\<lparr>cq_error := ''missing chatgpt_account_id''\<rparr>), []))"
  by (simp add: fetch_codex_quota_def Let_def)

section \<open>The Antigravity fetcher\<close>














section \<open>The credential directory\<close>

text \<open>
  \<^verbatim>\<open>provider not in TARGET_PROVIDERS\<close>: membership in a set of strings hashes the value,
  and a list or a dict is unhashable.
\<close>

fun in_target_providers :: "json \<Rightarrow> exn + bool" where
  "in_target_providers (JStr s) = Inr (s = ''codex'' \<or> s = ''antigravity'')"
| "in_target_providers (JArr xs) = Inl TypeError"
| "in_target_providers (JObj kvs) = Inl TypeError"
| "in_target_providers _ = Inr False"

text \<open>Iterating a decoded value: a list gives its elements, a dict its keys, a string
  its characters; anything else is not iterable.\<close>

fun py_iter :: "json \<Rightarrow> exn + json list" where
  "py_iter (JArr xs) = Inr xs"
| "py_iter (JObj kvs) = Inr (map (\<lambda>kv. JStr (fst kv)) kvs)"
| "py_iter (JStr s) = Inr (map (\<lambda>c. JStr [c]) s)"
| "py_iter _ = Inl TypeError"

text \<open>The \<^verbatim>\<open>AuthFile(...)\<close> constructor call: every field but the provider is read with
  a default; the last three keep the defaults of the dataclass.\<close>

definition new_auth_file :: "(string \<times> json) list \<Rightarrow> json \<Rightarrow> AuthFile" where
  "new_auth_file d prov =
     \<lparr>name = dict_get d ''name'' (JStr ''''),
      provider = prov,
      auth_index = py_or (dict_get d ''auth_index'' (JStr ''''))
                         (dict_get d ''authIndex'' (JStr '''')),
      email = dict_get d ''email'' (JStr ''''),
      status = dict_get d ''status'' (JStr ''unknown''),
      status_message = dict_get d ''status_message'' (JStr ''''),
      disabled = dict_get d ''disabled'' (JBool False),
      unavailable = dict_get d ''unavailable'' (JBool False),
      label = dict_get d ''label'' (JStr ''''),
      account_type = dict_get d ''account_type'' (JStr ''''),
      chatgpt_account_id = JStr '''',
      plan_type = JStr '''',
      project_id = JStr ''''\<rparr>"

text \<open>One pass of the loop of \<^verbatim>\<open>get_auth_files\<close>: nothing for a skipped entry.\<close>

definition auth_item :: "json \<Rightarrow> exn + AuthFile option" where
  "auth_item item =
     (case item of
        JObj d \<Rightarrow>
          (let prov = dict_get d ''provider'' (JStr '''') in
           case in_target_providers prov of
             Inl e \<Rightarrow> Inl e
           | Inr False \<Rightarrow> Inr None
           | Inr True \<Rightarrow>
               (let af = new_auth_file d prov;
                    id_token = dict_get d ''id_token'' (JObj [])
                in if truthy id_token \<and> prov = JStr ''codex'' then
                     (case obj_get id_token ''chatgpt_account_id'' (JStr '''') of
                        Inl e \<Rightarrow> Inl e
                      | Inr acct \<Rightarrow>
                          (case obj_get id_token ''plan_type'' (JStr '''') of
                             Inl e \<Rightarrow> Inl e
                           | Inr plan \<Rightarrow>
                               Inr (Some (af\<lparr>chatgpt_account_id := acct, plan_type := plan\<rparr>))))
                   else Inr (Some af)))
      | _ \<Rightarrow> Inl AttributeError)"

fun auth_loop :: "AuthFile list \<Rightarrow> json list \<Rightarrow> exn + AuthFile list" where
  "auth_loop auth_files [] = Inr auth_files"
| "auth_loop auth_files (item # rest) =
     (case auth_item item of
        Inl e \<Rightarrow> Inl e
      | Inr None \<Rightarrow> auth_loop auth_files rest
      | Inr (Some af) \<Rightarrow> auth_loop (auth_files @ [af]) rest)"

definition get_auth_files :: "env \<Rightarrow> (exn + AuthFile list) \<times> request list" where
  "get_auth_files env =
     (let (r, sent) = make_request env (management_api env @ ''/auth-files'') ''GET'' None in
      (case r of
         Inl e \<Rightarrow> Inl e
       | Inr resp \<Rightarrow>
           (case obj_get resp ''files'' (JArr []) of
              Inl e \<Rightarrow> Inl e
            | Inr files \<Rightarrow>
                (case py_iter files of
                   Inl e \<Rightarrow> Inl e
                 | Inr items \<Rightarrow> auth_loop [] items)),
       sent))"

section \<open>The fallback over the endpoints\<close>
















section \<open>What the directory listing returns\<close>

text \<open>
  A directory entry the loop accepts: a record whose provider tag is hashable and, when
  it is \<^verbatim>\<open>codex\<close>, whose \<^verbatim>\<open>id_token\<close> is absent, empty or a mapping.
\<close>

definition item_ok :: "json \<Rightarrow> bool" where
  "item_ok item =
     (case item of
        JObj d \<Rightarrow>
          (case in_target_providers (dict_get d ''provider'' (JStr '''')) of
             Inl e \<Rightarrow> False
           | Inr t \<Rightarrow>
               dict_get d ''provider'' (JStr '''') \<noteq> JStr ''codex''
               \<or> \<not> truthy (dict_get d ''id_token'' (JObj []))
               \<or> is_obj (dict_get d ''id_token'' (JObj [])))
      | _ \<Rightarrow> False)"

definition supported :: "json \<Rightarrow> bool" where
  "supported item =
     (case item of
        JObj d \<Rightarrow> dict_get d ''provider'' (JStr '''') = JStr ''codex''
                  \<or> dict_get d ''provider'' (JStr '''') = JStr ''antigravity''
      | _ \<Rightarrow> False)"

text \<open>The credential record of an entry, in the words of the specification.\<close>

definition auth_of :: "json \<Rightarrow> AuthFile" where
  "auth_of item =
     (case item of
        JObj d \<Rightarrow>
          (let af = new_auth_file d (dict_get d ''provider'' (JStr '''')) in
           case dict_get d ''id_token'' (JObj []) of
             JObj t \<Rightarrow>
               if t \<noteq> [] \<and> dict_get d ''provider'' (JStr '''') = JStr ''codex''
               then af\<lparr>chatgpt_account_id := dict_get t ''chatgpt_account_id'' (JStr ''''),
                       plan_type := dict_get t ''plan_type'' (JStr '''')\<rparr>
               else af
           | _ \<Rightarrow> af)
      | _ \<Rightarrow> new_auth_file [] JNull)"

lemma in_target_True:
  "in_target_providers p = Inr True \<longleftrightarrow> p = JStr ''codex'' \<or> p = JStr ''antigravity''"
  by (cases p) auto

lemma auth_item_ok:
  assumes "item_ok item"
  shows "auth_item item = Inr (if supported item then Some (auth_of item) else None)"
proof -
  from assms obtain d where d: "item = JObj d" by (cases item) (simp_all add: item_ok_def)
  let ?p = "dict_get d ''provider'' (JStr '''')"
  from assms d obtain t where t: "in_target_providers ?p = Inr t"
    by (cases "in_target_providers ?p") (simp_all add: item_ok_def)
  show ?thesis
  proof (cases t)
    case False
    with t in_target_True [of ?p] have "\<not> supported item" by (auto simp: supported_def d)
    with t False d show ?thesis by (simp add: auth_item_def)
  next
    case True
    with t in_target_True [of ?p] have s: "supported item" by (auto simp: supported_def d)
    show ?thesis
    proof (cases "truthy (dict_get d ''id_token'' (JObj [])) \<and> ?p = JStr ''codex''")
      case False
      with t True d s show ?thesis
        by (cases "dict_get d ''id_token'' (JObj [])") (auto simp: auth_item_def auth_of_def Let_def)
    next
      case c: True
      with assms d t obtain tk where tk: "dict_get d ''id_token'' (JObj []) = JObj tk"
        by (cases "dict_get d ''id_token'' (JObj [])") (auto simp: item_ok_def is_obj_def)
      with c t True d s show ?thesis
        by (auto simp: auth_item_def auth_of_def Let_def)
    qed
  qed
qed

lemma auth_loop_ok:
  assumes "\<forall>item \<in> set items. item_ok item"
  shows "auth_loop acc items = Inr (acc @ map auth_of (filter supported items))"
  using assms
proof (induction items arbitrary: acc)
  case Nil
  then show ?case by simp
next
  case (Cons item items)
  from Cons.prems have "item_ok item" and r: "\<forall>item \<in> set items. item_ok item" by simp_all
  with auth_item_ok [of item] Cons.IH [OF r] show ?case by simp
qed

text \<open>
  C8 (as amended). For a directory response that is a mapping whose \<^verbatim>\<open>files\<close> value is a
  list of entries accepted by \<open>item_ok\<close>, \<^verbatim>\<open>get_auth_files\<close> returns exactly the entries
  whose provider tag is \<^verbatim>\<open>codex\<close> or \<^verbatim>\<open>antigravity\<close>, in the order of the list; an absent
  optional field is defaulted, to the empty string, to false for the two flags and to
  \<^verbatim>\<open>"unknown"\<close> for the status.
\<close>

theorem directory_listing:
  assumes "fst (make_request env (management_api env @ ''/auth-files'') ''GET'' None) = Inr (JObj resp)"
    and "dict_get resp ''files'' (JArr []) = JArr items"
    and "\<forall>item \<in> set items. item_ok item"
  shows "fst (get_auth_files env) = Inr (map auth_of (filter supported items))
    \<and> (\<forall>d p.
         (map_of d ''name'' = None \<longrightarrow> name (new_auth_file d p) = JStr '''')
       \<and> (map_of d ''auth_index'' = None \<and> map_of d ''authIndex'' = None
            \<longrightarrow> auth_index (new_auth_file d p) = JStr '''')
       \<and> (map_of d ''email'' = None \<longrightarrow> email (new_auth_file d p) = JStr '''')
       \<and> (map_of d ''status'' = None \<longrightarrow> status (new_auth_file d p) = JStr ''unknown'')
       \<and> (map_of d ''status_message'' = None
            \<longrightarrow> status_message (new_auth_file d p) = JStr '''')
       \<and> (map_of d ''disabled'' = None \<longrightarrow> disabled (new_auth_file d p) = JBool False)
       \<and> (map_of d ''unavailable'' = None
            \<longrightarrow> unavailable (new_auth_file d p) = JBool False)
       \<and> (map_of d ''label'' = None \<longrightarrow> label (new_auth_file d p) = JStr '''')
       \<and> (map_of d ''account_type'' = None
            \<longrightarrow> account_type (new_auth_file d p) = JStr '''')
       \<and> (map_of d ''id_token'' = None
            \<longrightarrow> chatgpt_account_id (auth_of (JObj d)) = JStr ''''
              \<and> plan_type (auth_of (JObj d)) = JStr ''''))"
proof (rule conjI)
  show "fst (get_auth_files env) = Inr (map auth_of (filter supported items))"
    using assms(1,2) auth_loop_ok [OF assms(3), of "[]"]
    by (auto simp: get_auth_files_def split: prod.splits)
next
  show "\<forall>d p.
         (map_of d ''name'' = None \<longrightarrow> name (new_auth_file d p) = JStr '''')
       \<and> (map_of d ''auth_index'' = None \<and> map_of d ''authIndex'' = None
            \<longrightarrow> auth_index (new_auth_file d p) = JStr '''')
       \<and> (map_of d ''email'' = None \<longrightarrow> email (new_auth_file d p) = JStr '''')
       \<and> (map_of d ''status'' = None \<longrightarrow> status (new_auth_file d p) = JStr ''unknown'')
       \<and> (map_of d ''status_message'' = None
            \<longrightarrow> status_message (new_auth_file d p) = JStr '''')
       \<and> (map_of d ''disabled'' = None \<longrightarrow> disabled (new_auth_file d p) = JBool False)
       \<and> (map_of d ''unavailable'' = None
            \<longrightarrow> unavailable (new_auth_file d p) = JBool False)
       \<and> (map_of d ''label'' = None \<longrightarrow> label (new_auth_file d p) = JStr '''')
       \<and> (map_of d ''account_type'' = None
            \<longrightarrow> account_type (new_auth_file d p) = JStr '''')
       \<and> (map_of d ''id_token'' = None
            \<longrightarrow> chatgpt_account_id (auth_of (JObj d)) = JStr ''''
              \<and> plan_type (auth_of (JObj d)) = JStr '''')"
    by (simp add: new_auth_file_def auth_of_def dict_get_def py_or_def)
qed

text \<open>The equation of \<open>str_nat\<close> is recursive without a pattern; it is kept out of
  the simplifier's rules from here on.\<close>

declare str_nat.simps [simp del]

section \<open>Scripted runs\<close>

text \<open>
  A scripted environment for concrete runs. \<open>wire\<close> says how the exchange for an
  upstream URL ends (the directory request has no upstream URL and is keyed
  \<open>''directory''\<close>); a reply text is decoded by looking it up in \<open>decoded\<close>.
\<close>

definition scripted :: "(string \<Rightarrow> transport) \<Rightarrow> (string \<times> json) list \<Rightarrow> env" where
  "scripted wire decoded =
     \<lparr>management_api = ''http://localhost:8317/v0/management'',
      urlopen = (\<lambda>req.
         case req_data req of
           Some (JObj p) \<Rightarrow> (case map_of p ''url'' of Some (JStr u) \<Rightarrow> wire u | _ \<Rightarrow> Failure ''no url'')
         | _ \<Rightarrow> wire ''directory''),
      json_loads = (\<lambda>s. case map_of decoded s of
                           Some v \<Rightarrow> Inr v
                         | None \<Rightarrow> Inl (''Expecting value'', 1, 1, 0)),
      json_dumps = (\<lambda>v. ''{}''),
      float_of_str = (\<lambda>s. None),
      float_repr = (\<lambda>r. ''?'')\<rparr>"

text \<open>Two credential records.\<close>

definition codex_file :: AuthFile where
  "codex_file =
     \<lparr>name = JStr ''codex-u.json'', provider = JStr ''codex'', auth_index = JStr ''a1'',
      email = JStr ''u@x.com'', status = JStr ''active'', status_message = JStr '''',
      disabled = JBool False, unavailable = JBool False, label = JStr '''',
      account_type = JStr '''', chatgpt_account_id = JStr ''acct1'', plan_type = JStr ''plus'',
      project_id = JStr ''''\<rparr>"

definition antigravity_file :: AuthFile where
  "antigravity_file =
     \<lparr>name = JStr ''ag-v.json'', provider = JStr ''antigravity'', auth_index = JStr ''a2'',
      email = JStr ''v@y.com'', status = JStr ''active'', status_message = JStr '''',
      disabled = JBool False, unavailable = JBool False, label = JStr '''',
      account_type = JStr '''', chatgpt_account_id = JStr '''', plan_type = JStr '''',
      project_id = JStr ''''\<rparr>"


lemmas fetch_defs =
  scripted_def codex_file_def antigravity_file_def api_call_def make_request_def loads_def
  decode_body_def dict_get_def Let_def


definition codex_good :: env where
  "codex_good =
     scripted Body
       [(CODEX_USAGE_URL, JObj [(''status_code'', JInt 200), (''body'', JStr ''usage'')]),
        (''usage'',
         JObj [(''plan_type'', JStr ''pro''),
               (''rate_limit'',
                JObj [(''primary_window'',
                       JObj [(''used_percent'', JInt 25),
                             (''reset_after_seconds'', JInt 1800)])])])]"


theorem codex_preconditions_witness:
  "fetch_codex_quota codex_good (codex_file\<lparr>auth_index := JStr ''''\<rparr>)
     = (Inr ((new_codex_quota (codex_file\<lparr>auth_index := JStr ''''\<rparr>))
               \<lparr>cq_error := ''missing auth_index''\<rparr>), [])
   \<and> fetch_codex_quota codex_good (codex_file\<lparr>chatgpt_account_id := JStr ''''\<rparr>)
     = (Inr ((new_codex_quota (codex_file\<lparr>chatgpt_account_id := JStr ''''\<rparr>))
               \<lparr>cq_error := ''missing chatgpt_account_id''\<rparr>), [])"
  using codex_preconditions [of "codex_file\<lparr>auth_index := JStr ''''\<rparr>" codex_good]
    codex_preconditions [of "codex_file\<lparr>chatgpt_account_id := JStr ''''\<rparr>" codex_good]
  by (simp add: codex_file_def)











definition listing :: "json list" where
  "listing =
     [JObj [(''name'', JStr ''codex-u.json''), (''provider'', JStr ''codex''),
            (''auth_index'', JStr ''a1''), (''email'', JStr ''u@x.com''),
            (''id_token'', JObj [(''chatgpt_account_id'', JStr ''acct1'')])],
      JObj [(''name'', JStr ''claude-w.json''), (''provider'', JStr ''claude'')],
      JObj [(''provider'', JStr ''antigravity''), (''authIndex'', JStr ''a2''),
            (''disabled'', JBool True)]]"

definition directory :: env where
  "directory = scripted Body [(''directory'', JObj [(''files'', JArr listing)])]"

definition bare_directory :: env where
  "bare_directory =
     scripted Body [(''directory'', JObj [(''files'', JArr [JObj [(''provider'', JStr ''codex'')]])])]"

theorem directory_listing_witness:
  "fst (get_auth_files directory) =
     Inr [\<lparr>name = JStr ''codex-u.json'', provider = JStr ''codex'', auth_index = JStr ''a1'',
           email = JStr ''u@x.com'', status = JStr ''unknown'', status_message = JStr '''',
           disabled = JBool False, unavailable = JBool False, label = JStr '''',
           account_type = JStr '''', chatgpt_account_id = JStr ''acct1'',
           plan_type = JStr '''', project_id = JStr ''''\<rparr>,
          \<lparr>name = JStr '''', provider = JStr ''antigravity'', auth_index = JStr ''a2'',
           email = JStr '''', status = JStr ''unknown'', status_message = JStr '''',
           disabled = JBool True, unavailable = JBool False, label = JStr '''',
           account_type = JStr '''', chatgpt_account_id = JStr '''',
           plan_type = JStr '''', project_id = JStr ''''\<rparr>]"
proof -
  have a: "fst (make_request directory (management_api directory @ ''/auth-files'') ''GET'' None)
      = Inr (JObj [(''files'', JArr listing)])"
    by (simp add: directory_def fetch_defs)
  have b: "dict_get [(''files'', JArr listing)] ''files'' (JArr []) = JArr listing"
    by (simp add: dict_get_def)
  have c: "\<forall>item \<in> set listing. item_ok item"
    by (simp add: listing_def item_ok_def dict_get_def is_obj_def)
  from directory_listing [OF a b c]
  have "fst (get_auth_files directory) = Inr (map auth_of (filter supported listing))" by blast
  then show ?thesis
    by (simp add: listing_def supported_def auth_of_def new_auth_file_def dict_get_def py_or_def)
qed

theorem status_default_counterexample:
  "fst (get_auth_files bare_directory) =
     Inr [\<lparr>name = JStr '''', provider = JStr ''codex'', auth_index = JStr '''',
           email = JStr '''', status = JStr ''unknown'', status_message = JStr '''',
           disabled = JBool False, unavailable = JBool False, label = JStr '''',
           account_type = JStr '''', chatgpt_account_id = JStr '''',
           plan_type = JStr '''', project_id = JStr ''''\<rparr>]"
  by (simp add: bare_directory_def fetch_defs get_auth_files_def auth_item_def
      new_auth_file_def py_or_def)

end
